theory Spec2Isabelle
  imports Complex_Main
begin

section \<open>Vectors and rigid bodies\<close>

text \<open>
  JavaScript numbers are IEEE doubles. The model's numbers are real numbers; infinities
  and NaN are not represented, and where the source divides by a quantity that can be zero
  the model says so explicitly.

  Where a property depends on the value of an arithmetic result (the speed clamp, the
  timers of the disappearing platform, the progress of the moving platform), the model
  rounds as the code does: the function takes the rounding function \<open>rnd\<close> as its first
  argument and applies it to the result of every arithmetic operation, in JavaScript's
  order of evaluation, and to every literal that is not a double. For the code \<open>rnd\<close> is
  rounding to the nearest double; \<open>\<lambda>x. x\<close> is exact arithmetic. A theorem assumes of \<open>rnd\<close>
  only what it states.

  A \<open>vec3\<close> stands for both \<open>THREE.Vector3\<close> and \<open>CANNON.Vec3\<close>.
\<close>

record vec3 =
  vx :: real
  vy :: real
  vz :: real

definition vadd :: "vec3 \<Rightarrow> vec3 \<Rightarrow> vec3" where
  "vadd a b = \<lparr>vx = vx a + vx b, vy = vy a + vy b, vz = vz a + vz b\<rparr>"

definition vscale :: "real \<Rightarrow> vec3 \<Rightarrow> vec3" where
  "vscale s a = \<lparr>vx = vx a * s, vy = vy a * s, vz = vz a * s\<rparr>"

definition vlength :: "vec3 \<Rightarrow> real" where
  "vlength a = sqrt (vx a * vx a + vy a * vy a + vz a * vz a)"

definition vzero :: vec3 where
  "vzero = \<lparr>vx = 0, vy = 0, vz = 0\<rparr>"

text \<open>
  \<open>accurate u rnd t\<close>: rounding the exact result \<open>t\<close> has relative error at most \<open>u\<close>.
  Rounding to the nearest double is accurate with \<open>u = 2\<^sup>-\<^sup>5\<^sup>3\<close> at every \<open>t\<close> that
  neither overflows nor falls into the subnormal range, and at 0.
\<close>

definition accurate :: "real \<Rightarrow> (real \<Rightarrow> real) \<Rightarrow> real \<Rightarrow> bool" where
  "accurate u rnd t \<longleftrightarrow> \<bar>rnd t - t\<bar> \<le> u * \<bar>t\<bar>"

text \<open>
  A rounding function for examples: to the nearest multiple of \<open>1/1024\<close>, halves upwards.
\<close>

definition round_to_grid :: "real \<Rightarrow> real" where
  "round_to_grid t = of_int \<lfloor>t * 1024 + 1 / 2\<rfloor> / 1024"

text \<open>
  \<open>Vec3.length\<close> is \<open>Math.sqrt(x*x + y*y + z*z)\<close>, \<open>Vec3.scale\<close> multiplies every
  component, and \<open>Body.applyForce\<close> adds the force to the accumulator component by
  component; with rounding:
\<close>

definition vlength_fl :: "(real \<Rightarrow> real) \<Rightarrow> vec3 \<Rightarrow> real" where
  "vlength_fl rnd a =
     rnd (sqrt (rnd (rnd (rnd (vx a * vx a) + rnd (vy a * vy a)) + rnd (vz a * vz a))))"

definition vscale_fl :: "(real \<Rightarrow> real) \<Rightarrow> real \<Rightarrow> vec3 \<Rightarrow> vec3" where
  "vscale_fl rnd s a = \<lparr>vx = rnd (s * vx a), vy = rnd (s * vy a), vz = rnd (s * vz a)\<rparr>"

text \<open>
  The fields of a \<open>CANNON.Body\<close> that the game reads or writes. \<open>force\<close> is the
  accumulator that \<open>Body.applyForce\<close> adds to; the engine integrates it at the next
  world step. \<open>Body.applyImpulse\<close> changes the velocity at once by impulse times inverse
  mass. Both are called by the game with the body's own position as the point of
  application, so neither produces torque.
\<close>

record body =
  position :: vec3
  velocity :: vec3
  angularVelocity :: vec3
  force :: vec3
  mass :: real
  collisionResponse :: bool

definition body_applyForce :: "vec3 \<Rightarrow> body \<Rightarrow> body" where
  "body_applyForce f b = b\<lparr>force := vadd (force b) f\<rparr>"

definition body_applyForce_fl :: "(real \<Rightarrow> real) \<Rightarrow> vec3 \<Rightarrow> body \<Rightarrow> body" where
  "body_applyForce_fl rnd f b =
     b\<lparr>force := \<lparr>vx = rnd (vx (force b) + vx f), vy = rnd (vy (force b) + vy f),
                  vz = rnd (vz (force b) + vz f)\<rparr>\<rparr>"

definition invMass :: "body \<Rightarrow> real" where
  "invMass b = (if mass b > 0 then 1 / mass b else 0)"

definition body_applyImpulse :: "vec3 \<Rightarrow> body \<Rightarrow> body" where
  "body_applyImpulse j b = b\<lparr>velocity := vadd (velocity b) (vscale (invMass b) j)\<rparr>"

text \<open>\<open>PhysicsSystem.createSphereBody(radius, position, mass = 1)\<close>.\<close>

definition createSphereBody :: "vec3 \<Rightarrow> real \<Rightarrow> body" where
  "createSphereBody pos m =
     \<lparr>position = pos, velocity = vzero, angularVelocity = vzero, force = vzero,
      mass = m, collisionResponse = True\<rparr>"



section \<open>Player (player.js)\<close>

text \<open>
  The state of a \<open>Player\<close> object. Rendering-only members (stripes, trail particles,
  particle bursts) are left out; they are never read back by the game logic.

  \<^item> \<open>meshPosition\<close> is \<open>this.mesh.position\<close>, which \<open>PhysicsSystem.update\<close> overwrites
    with the body's position on every frame.
  \<^item> \<open>isOnJumpPad\<close> is read by \<open>jump\<close>. No code of the repository assigns it, so it is
    \<open>undefined\<close> (falsy) in every player the game creates.
  \<^item> \<open>jumpPowerTimeout\<close> and \<open>speedBoostTimeout\<close> hold the pending \<open>setTimeout\<close>
    timers: \<open>Some ms\<close> is a timer that fires after \<open>ms\<close> more milliseconds of wall-clock
    time, \<open>None\<close> is \<open>null\<close>/\<open>undefined\<close>.
  \<^item> \<open>onDeath\<close> says whether a death callback is registered; \<open>deathCalls\<close> counts its
    invocations.
\<close>

record inputState =
  forward :: bool
  backward :: bool
  left :: bool
  right :: bool
  jumpKey :: bool

record player =
  radius :: real
  spawnPosition :: vec3
  moveForce :: real
  jumpForce :: real
  maxSpeed :: real
  canJump :: bool
  isJumping :: bool
  jumpCooldown :: real
  moveDirection :: "real \<times> real"
  isMoving :: bool
  hasJumpPower :: bool
  hasSpeedBoost :: bool
  speedBoostFactor :: real
  isOnJumpPad :: bool
  body :: body
  meshPosition :: vec3
  meshColor :: nat
  trailActive :: bool
  jumpPowerTimeout :: "real option"
  speedBoostTimeout :: "real option"
  onDeath :: bool
  deathCalls :: nat

definition new_player :: "vec3 \<Rightarrow> player" where
  "new_player pos =
     \<lparr>radius = 0.5, spawnPosition = pos, moveForce = 20, jumpForce = 12, maxSpeed = 10,
      canJump = False, isJumping = False, jumpCooldown = 0, moveDirection = (0, 0),
      isMoving = False, hasJumpPower = False, hasSpeedBoost = False,
      speedBoostFactor = 1.5, isOnJumpPad = False, body = createSphereBody pos 1,
      meshPosition = pos, meshColor = 0x2194ce, trailActive = False,
      jumpPowerTimeout = None, speedBoostTimeout = None, onDeath = False, deathCalls = 0\<rparr>"

text \<open>The \<open>collide\<close> listener of \<open>setupContactEvents\<close>; \<open>ny\<close> is \<open>contact.ni.y\<close>.\<close>

definition collide :: "real \<Rightarrow> player \<Rightarrow> player" where
  "collide ny p = (if ny > 0.5 then p\<lparr>canJump := True, isJumping := False\<rparr> else p)"

definition jump :: "player \<Rightarrow> player" where
  "jump p =
     (if \<not> canJump p then p
      else if \<not> hasJumpPower p \<and> \<not> isOnJumpPad p then p
      else p\<lparr>body := body_applyImpulse \<lparr>vx = 0, vy = jumpForce p, vz = 0\<rparr> (body p),
             canJump := False, isJumping := True, jumpCooldown := 0.5\<rparr>)"

definition processInput :: "inputState \<Rightarrow> player \<Rightarrow> player" where
  "processInput i p =
     (let z0 = (0::real); x0 = (0::real);
          z1 = (if forward i then z0 - 1 else z0);
          z2 = (if backward i then z1 + 1 else z1);
          x1 = (if left i then x0 - 1 else x0);
          x2 = (if right i then x1 + 1 else x1);
          p1 = (if x2 \<noteq> 0 \<or> z2 \<noteq> 0 then
                  (if x2 \<noteq> 0 \<and> z2 \<noteq> 0 then
                     (let len = sqrt (x2 * x2 + z2 * z2)
                      in p\<lparr>moveDirection := (x2 / len, z2 / len), isMoving := True\<rparr>)
                   else p\<lparr>moveDirection := (x2, z2), isMoving := True\<rparr>)
                else p\<lparr>moveDirection := (x2, z2), isMoving := False\<rparr>)
      in if jumpKey i \<and> canJump p1 \<and> jumpCooldown p1 \<le> 0 then jump p1 else p1)"

text \<open>
  \<open>velocity\<close> in the source is an alias of \<open>this.body.velocity\<close>, so scaling its
  components updates the body in place. \<open>speed\<close> is computed once, before the clamp.
\<close>

definition applyMovementForces :: "real \<Rightarrow> player \<Rightarrow> player" where
  "applyMovementForces deltaTime p =
     (if isMoving p then
        (let actualMoveForce =
               (if hasSpeedBoost p then moveForce p * speedBoostFactor p else moveForce p);
             v = velocity (body p);
             f = \<lparr>vx = fst (moveDirection p) * actualMoveForce * deltaTime, vy = 0,
                  vz = snd (moveDirection p) * actualMoveForce * deltaTime\<rparr>;
             b1 = body_applyForce f (body p);
             speed = vlength \<lparr>vx = vx v, vy = 0, vz = vz v\<rparr>;
             cap = (if hasSpeedBoost p then maxSpeed p * speedBoostFactor p else maxSpeed p);
             b2 = (if speed > cap
                   then b1\<lparr>velocity := v\<lparr>vx := vx v * (cap / speed),
                                            vz := vz v * (cap / speed)\<rparr>\<rparr>
                   else b1)
         in p\<lparr>body := b2, trailActive := (speed > cap * 0.7)\<rparr>)
      else
        p\<lparr>body := (body p)\<lparr>velocity := (velocity (body p))
                 \<lparr>vx := vx (velocity (body p)) * 0.95,
                  vz := vz (velocity (body p)) * 0.95\<rparr>\<rparr>,
          trailActive := False\<rparr>)"

definition removeAllPowerups :: "player \<Rightarrow> player" where
  "removeAllPowerups p =
     p\<lparr>hasJumpPower := False, hasSpeedBoost := False,
       jumpPowerTimeout := None, speedBoostTimeout := None, meshColor := 0x2194ce\<rparr>"

definition respawn :: "player \<Rightarrow> player" where
  "respawn p =
     removeAllPowerups
       (p\<lparr>body := (body p)\<lparr>position := \<lparr>vx = vx (spawnPosition p), vy = vy (spawnPosition p),
                                            vz = vz (spawnPosition p)\<rparr>,
                              velocity := vzero, angularVelocity := vzero\<rparr>,
          canJump := False, isJumping := False, jumpCooldown := 0.5\<rparr>)"

definition die :: "player \<Rightarrow> player" where
  "die p =
     (let p1 = respawn p
      in if onDeath p1 then p1\<lparr>deathCalls := Suc (deathCalls p1)\<rparr> else p1)"

definition checkBounds :: "player \<Rightarrow> player" where
  "checkBounds p = (if vy (meshPosition p) < - 10 then die p else p)"

definition setSpawnPoint :: "vec3 \<Rightarrow> player \<Rightarrow> player" where
  "setSpawnPoint pos p = p\<lparr>spawnPosition := pos\<rparr>"

definition setOnDeathCallback :: "player \<Rightarrow> player" where
  "setOnDeathCallback p = p\<lparr>onDeath := True\<rparr>"

text \<open>
  \<open>giveJumpPower(duration = 10)\<close> and \<open>giveSpeedBoost(duration = 5)\<close>: the flag is set,
  a pending timer is cancelled, and a new timer of \<open>duration * 1000\<close> milliseconds is
  started with \<open>setTimeout\<close>.
\<close>

definition giveJumpPower :: "real \<Rightarrow> player \<Rightarrow> player" where
  "giveJumpPower duration p =
     p\<lparr>hasJumpPower := True, meshColor := 0x00ff00,
       jumpPowerTimeout := Some (duration * 1000)\<rparr>"

definition giveSpeedBoost :: "real \<Rightarrow> player \<Rightarrow> player" where
  "giveSpeedBoost duration p =
     p\<lparr>hasSpeedBoost := True, meshColor := 0xff8800,
       speedBoostTimeout := Some (duration * 1000)\<rparr>"

text \<open>The two timer callbacks, as written in the arrow functions handed to \<open>setTimeout\<close>.\<close>

definition jumpPowerExpired :: "player \<Rightarrow> player" where
  "jumpPowerExpired p = p\<lparr>hasJumpPower := False, meshColor := 0x2194ce, jumpPowerTimeout := None\<rparr>"

definition speedBoostExpired :: "player \<Rightarrow> player" where
  "speedBoostExpired p = p\<lparr>hasSpeedBoost := False, meshColor := 0x2194ce, speedBoostTimeout := None\<rparr>"

text \<open>
  Modelled from the behaviour of the browser's timers, which are not code of the
  repository: an idealised timer queue. When \<open>ms\<close> milliseconds of wall-clock time pass,
  every pending timer whose delay has run out fires, and the others come \<open>ms\<close> closer; this
  happens whether or not the frame loop calls \<open>update\<close>. A browser runs a callback no
  earlier than its delay, possibly later, and takes the delay as a 32-bit integer; the
  model fires at the delay and keeps it as it is. Nothing is derived from the instant at
  which a timer fires except that it can fire while no frame runs.
\<close>

definition advanceClock :: "real \<Rightarrow> player \<Rightarrow> player" where
  "advanceClock ms p =
     (let p1 = (case jumpPowerTimeout p of
                  None \<Rightarrow> p
                | Some r \<Rightarrow> if r \<le> ms then jumpPowerExpired p
                            else p\<lparr>jumpPowerTimeout := Some (r - ms)\<rparr>)
      in case speedBoostTimeout p1 of
           None \<Rightarrow> p1
         | Some r \<Rightarrow> if r \<le> ms then speedBoostExpired p1
                     else p1\<lparr>speedBoostTimeout := Some (r - ms)\<rparr>)"

text \<open>
  \<open>Player.update(deltaTime, inputState)\<close>. \<open>updateTrail\<close> and \<open>updatePowerups\<close> only
  change the rendering and are left out.
\<close>

definition update :: "real \<Rightarrow> inputState \<Rightarrow> player \<Rightarrow> player" where
  "update deltaTime i p =
     (let p1 = processInput i p;
          p2 = applyMovementForces deltaTime p1;
          p3 = checkBounds p2
      in if jumpCooldown p3 > 0 then p3\<lparr>jumpCooldown := jumpCooldown p3 - deltaTime\<rparr> else p3)"

text \<open>
  \<open>PhysicsSystem.update\<close> as the player sees it: the engine leaves the body in some new
  state \<open>b\<close> and the mesh position is copied from it.
\<close>

definition physicsUpdate :: "body \<Rightarrow> player \<Rightarrow> player" where
  "physicsUpdate b p = p\<lparr>body := b, meshPosition := position b\<rparr>"

text \<open>
  Everything the game does to a player: the methods other classes call, the contact
  listener, the timer callbacks and the physics step. The states of a player are those
  that a run of such events produces from a newly constructed one.
\<close>

datatype player_event =
    Update real inputState
  | Collide real
  | Jump
  | Respawn
  | GiveJumpPower real
  | GiveSpeedBoost real
  | SetSpawnPoint vec3
  | SetOnDeathCallback
  | ClockAdvance real
  | PhysicsUpdate body

fun apply_event :: "player_event \<Rightarrow> player \<Rightarrow> player" where
  "apply_event (Update dt i) p = update dt i p"
| "apply_event (Collide ny) p = collide ny p"
| "apply_event Jump p = jump p"
| "apply_event Respawn p = respawn p"
| "apply_event (GiveJumpPower d) p = giveJumpPower d p"
| "apply_event (GiveSpeedBoost d) p = giveSpeedBoost d p"
| "apply_event (SetSpawnPoint pos) p = setSpawnPoint pos p"
| "apply_event SetOnDeathCallback p = setOnDeathCallback p"
| "apply_event (ClockAdvance ms) p = advanceClock ms p"
| "apply_event (PhysicsUpdate b) p = physicsUpdate b p"

fun run_events :: "player_event list \<Rightarrow> player \<Rightarrow> player" where
  "run_events [] p = p"
| "run_events (e # es) p = run_events es (apply_event e p)"

fun upward_contact :: "player_event \<Rightarrow> bool" where
  "upward_contact (Collide ny) = (ny > 0.5)"
| "upward_contact _ = False"


text \<open>Quantities used to state the speed limit of \<open>applyMovementForces\<close>.\<close>

definition hspeed :: "body \<Rightarrow> real" where
  "hspeed b = vlength \<lparr>vx = vx (velocity b), vy = 0, vz = vz (velocity b)\<rparr>"

definition speedCap :: "player \<Rightarrow> real" where
  "speedCap p = (if hasSpeedBoost p then maxSpeed p * speedBoostFactor p else maxSpeed p)"

text \<open>
  \<open>applyMovementForces\<close> with rounding. The literals 0.7 and 0.95 are not doubles and are
  rounded where they are read; \<open>applyMovementForces\<close> above is the same function in exact
  arithmetic. \<open>speedCap_fl\<close> is the cap as the method computes it.
\<close>

definition speedCap_fl :: "(real \<Rightarrow> real) \<Rightarrow> player \<Rightarrow> real" where
  "speedCap_fl rnd p =
     (if hasSpeedBoost p then rnd (maxSpeed p * speedBoostFactor p) else maxSpeed p)"

definition applyMovementForces_fl :: "(real \<Rightarrow> real) \<Rightarrow> real \<Rightarrow> player \<Rightarrow> player" where
  "applyMovementForces_fl rnd deltaTime p =
     (if isMoving p then
        (let actualMoveForce =
               (if hasSpeedBoost p then rnd (moveForce p * speedBoostFactor p)
                else moveForce p);
             v = velocity (body p);
             f = \<lparr>vx = rnd (rnd (fst (moveDirection p) * actualMoveForce) * deltaTime),
                  vy = 0,
                  vz = rnd (rnd (snd (moveDirection p) * actualMoveForce) * deltaTime)\<rparr>;
             b1 = body_applyForce_fl rnd f (body p);
             speed = vlength_fl rnd \<lparr>vx = vx v, vy = 0, vz = vz v\<rparr>;
             cap = (if hasSpeedBoost p then rnd (maxSpeed p * speedBoostFactor p)
                    else maxSpeed p);
             b2 = (if speed > cap
                   then (let scaleFactor = rnd (cap / speed)
                         in b1\<lparr>velocity := v\<lparr>vx := rnd (vx v * scaleFactor),
                                                  vz := rnd (vz v * scaleFactor)\<rparr>\<rparr>)
                   else b1)
         in p\<lparr>body := b2, trailActive := (speed > rnd (cap * rnd 0.7))\<rparr>)
      else
        p\<lparr>body := (body p)\<lparr>velocity := (velocity (body p))
                 \<lparr>vx := rnd (vx (velocity (body p)) * rnd 0.95),
                  vz := rnd (vz (velocity (body p)) * rnd 0.95)\<rparr>\<rparr>,
          trailActive := False\<rparr>)"

text \<open>
  The exact results of the arithmetic operations that compute the speed and rescale the
  velocity, in the order the method performs them: the three squares, the two sums and the
  square root, and, when the speed exceeds the cap, the quotient \<open>maxSpeed / speed\<close> and
  the two products.
\<close>

definition clamp_operations :: "(real \<Rightarrow> real) \<Rightarrow> player \<Rightarrow> real list" where
  "clamp_operations rnd p =
     (let x = vx (velocity (body p)); z = vz (velocity (body p));
          a = rnd (x * x); y0 = rnd (0 * 0); b = rnd (z * z);
          c1 = rnd (a + y0); c = rnd (c1 + b);
          s = rnd (sqrt c);
          k = rnd (speedCap_fl rnd p / s)
      in [x * x, 0 * 0, z * z, a + y0, c1 + b, sqrt c]
         @ (if s > speedCap_fl rnd p then [speedCap_fl rnd p / s, x * k, z * k] else []))"


section \<open>Collectibles (CollectiblesManager)\<close>

datatype collectible_type = COIN | JUMP_POWER | SPEED_BOOST | CHECKPOINT

text \<open>
  One record for the four kinds of collectible object. \<open>c_value\<close> is set for coins,
  \<open>c_duration\<close> for power-ups and \<open>activated\<close> for checkpoints; a property the source
  does not set is read as falsy. \<open>c_inScene\<close> says whether the mesh is in the scene.
\<close>

record collectible =
  ctype :: collectible_type
  c_meshPosition :: vec3
  c_meshColor :: nat
  c_meshEmissive :: nat
  c_meshOpacity :: real
  c_inScene :: bool
  collected :: bool
  activated :: bool
  basePosition :: vec3
  c_radius :: real
  c_value :: real
  c_duration :: real

definition createCheckpoint :: "vec3 \<Rightarrow> collectible" where
  "createCheckpoint pos =
     \<lparr>ctype = CHECKPOINT, c_meshPosition = pos, c_meshColor = 0x00ffff,
      c_meshEmissive = 0x00aaaa, c_meshOpacity = 0.8, c_inScene = True,
      collected = False, activated = False, basePosition = pos, c_radius = 1.0,
      c_value = 0, c_duration = 0\<rparr>"

text \<open>The callbacks installed by \<open>setCallbacks\<close>: which of them are registered.\<close>

record collectiblesManager =
  onCollectible :: bool
  onCoinCollected :: bool
  onCheckpointActivated :: bool

text \<open>
  The calls \<open>collectItem\<close> makes to its collaborators, in order: the particle burst,
  the callbacks, the removal of the mesh and \<open>player.setSpawnPoint\<close>.
\<close>

datatype effect =
    CollectionEffect
  | CoinCollectedCallback real
  | SceneRemove
  | SetSpawnPointCall vec3
  | CheckpointActivatedCallback
  | CollectibleCallback collectible_type

definition collectItem ::
  "collectiblesManager \<Rightarrow> collectible \<Rightarrow> player \<Rightarrow> collectible \<times> player \<times> effect list" where
  "collectItem m c p =
     (let c1 = c\<lparr>collected := True\<rparr>;
          t1 = [CollectionEffect];
          (c2, p2, t2) =
            (case ctype c1 of
               COIN \<Rightarrow>
                 (c1\<lparr>c_inScene := False\<rparr>, p,
                  t1 @ (if onCoinCollected m then [CoinCollectedCallback (c_value c1)] else [])
                     @ [SceneRemove])
             | JUMP_POWER \<Rightarrow>
                 (c1\<lparr>c_inScene := False\<rparr>, giveJumpPower (c_duration c1) p, t1 @ [SceneRemove])
             | SPEED_BOOST \<Rightarrow>
                 (c1\<lparr>c_inScene := False\<rparr>, giveSpeedBoost (c_duration c1) p, t1 @ [SceneRemove])
             | CHECKPOINT \<Rightarrow>
                 (let (c3, p3, t3) =
                        (if \<not> activated c1 then
                           (let spawn = \<lparr>vx = vx (c_meshPosition c1),
                                         vy = vy (c_meshPosition c1) + 1,
                                         vz = vz (c_meshPosition c1)\<rparr>
                            in (c1\<lparr>activated := True, c_meshColor := 0x00ff00,
                                    c_meshEmissive := 0x00aa00, c_meshOpacity := 0.9\<rparr>,
                                setSpawnPoint spawn p,
                                t1 @ [SetSpawnPointCall spawn]
                                   @ (if onCheckpointActivated m
                                      then [CheckpointActivatedCallback] else [])))
                         else (c1, p, t1))
                  in (c3\<lparr>collected := False\<rparr>, p3, t3)))
      in (c2, p2, t2 @ (if onCollectible m then [CollectibleCallback (ctype c2)] else [])))"

fun is_spawn_call :: "effect \<Rightarrow> bool" where
  "is_spawn_call (SetSpawnPointCall _) = True"
| "is_spawn_call _ = False"


section \<open>Disappearing platform and vortex (obstacles.js)\<close>











datatype js_error = TypeError

text \<open>\<open>PhysicsSystem.applyForce(body, direction, strength)\<close>.\<close>

definition physics_applyForce :: "body \<Rightarrow> vec3 \<Rightarrow> real \<Rightarrow> body" where
  "physics_applyForce b direction s =
     body_applyForce \<lparr>vx = vx direction * s, vy = vy direction * s, vz = vz direction * s\<rparr> b"

text \<open>
  The object built by \<open>createVortex\<close>. Its properties are \<open>type\<close>, \<open>mesh\<close>,
  \<open>particles\<close>, \<open>position\<close>, \<open>radius\<close>, \<open>strength\<close>, \<open>rotationSpeed\<close>, \<open>update\<close> and
  \<open>applyForceToPlayer\<close>. \<open>applyForceToPlayer\<close> is invoked as a method of that object
  and reads \<open>this.physics\<close>; \<open>v_physics\<close> says whether the object carries such a
  property. \<open>createVortex\<close> does not give it one (only the manager has \<open>physics\<close>).
\<close>

record vortex =
  v_position :: vec3
  v_radius :: real
  strength :: real
  v_rotationSpeed :: real
  v_physics :: bool

definition createVortex :: "vec3 \<Rightarrow> real \<Rightarrow> real \<Rightarrow> vortex" where
  "createVortex pos r s =
     \<lparr>v_position = pos, v_radius = r, strength = s, v_rotationSpeed = 1.0, v_physics = False\<rparr>"

text \<open>
  \<open>vortex.applyForceToPlayer(player, deltaTime)\<close>. Reading \<open>applyForce\<close> from the
  undefined \<open>this.physics\<close> throws a \<open>TypeError\<close>. The player's body always exists.
  At distance 0 the source computes \<open>0 / 0\<close>, which is NaN in JavaScript; the model's
  \<open>0 / 0\<close> is 0.
\<close>

definition applyForceToPlayer :: "vortex \<Rightarrow> player \<Rightarrow> real \<Rightarrow> js_error + player" where
  "applyForceToPlayer v pl deltaTime =
     (let dx = vx (v_position v) - vx (meshPosition pl);
          dz = vz (v_position v) - vz (meshPosition pl);
          distanceSquared = dx * dx + dz * dz
      in if distanceSquared < v_radius v * v_radius v then
           (let distance = sqrt distanceSquared;
                forceMagnitude = (1 - distance / v_radius v) * strength v;
                direction = \<lparr>vx = dx / distance, vy = 0, vz = dz / distance\<rparr>
            in if v_physics v
               then Inr (pl\<lparr>body := physics_applyForce (body pl) direction
                                        (forceMagnitude * deltaTime)\<rparr>)
               else Inl TypeError)
         else Inr pl)"

text \<open>The horizontal distance between the vortex centre and the player's mesh.\<close>

definition vortex_distance :: "vortex \<Rightarrow> player \<Rightarrow> real" where
  "vortex_distance v pl =
     sqrt ((vx (v_position v) - vx (meshPosition pl)) * (vx (v_position v) - vx (meshPosition pl))
         + (vz (v_position v) - vz (meshPosition pl)) * (vz (v_position v) - vz (meshPosition pl)))"


section \<open>Level obstacles and finish zone (level.js)\<close>

datatype axis = AxisX | AxisY | AxisZ

record revolvingBar =
  rb_body :: body
  rotationAxis :: vec3
  rotationSpeed :: real

record movingPlatform =
  mp_body :: body
  startPos :: vec3
  axis :: axis
  distance :: real
  speed :: real
  direction :: real
  progress :: real

datatype obstacle = RevolvingBarObstacle revolvingBar | MovingPlatformObstacle movingPlatform



definition axis_coord :: "axis \<Rightarrow> vec3 \<Rightarrow> real" where
  "axis_coord a v = (case a of AxisX \<Rightarrow> vx v | AxisY \<Rightarrow> vy v | AxisZ \<Rightarrow> vz v)"

text \<open>\<open>newPos[axis] += d\<close>, with rounding.\<close>

definition axis_add :: "(real \<Rightarrow> real) \<Rightarrow> axis \<Rightarrow> real \<Rightarrow> vec3 \<Rightarrow> vec3" where
  "axis_add rnd a d v =
     (case a of AxisX \<Rightarrow> v\<lparr>vx := rnd (vx v + d)\<rparr> | AxisY \<Rightarrow> v\<lparr>vy := rnd (vy v + d)\<rparr>
              | AxisZ \<Rightarrow> v\<lparr>vz := rnd (vz v + d)\<rparr>)"

text \<open>
  The body of the \<open>movingPlatform\<close> branch of \<open>updateObstacles\<close>, with rounding.
  \<open>next_progress\<close> is the value of \<open>obstacle.progress\<close> after the \<open>+=\<close>, before the
  bounds are checked.
\<close>

definition next_progress :: "(real \<Rightarrow> real) \<Rightarrow> real \<Rightarrow> movingPlatform \<Rightarrow> real" where
  "next_progress rnd deltaTime ob =
     rnd (progress ob + rnd (rnd (deltaTime * speed ob) * direction ob))"

definition updateMovingPlatform ::
  "(real \<Rightarrow> real) \<Rightarrow> real \<Rightarrow> movingPlatform \<Rightarrow> movingPlatform" where
  "updateMovingPlatform rnd deltaTime ob =
     (let pr = next_progress rnd deltaTime ob;
          (dir1, pr1) = (if pr \<ge> distance ob then (- 1, distance ob)
                         else if pr \<le> 0 then (1, 0)
                         else (direction ob, pr));
          newPos = axis_add rnd (axis ob) (rnd (pr1 * dir1)) (startPos ob)
      in ob\<lparr>progress := pr1, direction := dir1,
            mp_body := (mp_body ob)\<lparr>position := newPos, velocity := vzero,
                                    angularVelocity := vzero\<rparr>\<rparr>)"

fun updateObstacle :: "(real \<Rightarrow> real) \<Rightarrow> real \<Rightarrow> obstacle \<Rightarrow> obstacle" where
  "updateObstacle rnd deltaTime (RevolvingBarObstacle rb) =
     RevolvingBarObstacle
       (rb\<lparr>rb_body := (rb_body rb)
              \<lparr>angularVelocity := vscale_fl rnd (rotationSpeed rb) (rotationAxis rb)\<rparr>\<rparr>)"
| "updateObstacle rnd deltaTime (MovingPlatformObstacle mp) =
     MovingPlatformObstacle (updateMovingPlatform rnd deltaTime mp)"

definition updateObstacles :: "(real \<Rightarrow> real) \<Rightarrow> real \<Rightarrow> obstacle list \<Rightarrow> obstacle list" where
  "updateObstacles rnd deltaTime obs = map (updateObstacle rnd deltaTime) obs"







section \<open>Player: movement, jumping, death and respawn\<close>

text \<open>
  C1, as stated, fails: a player that is not moving (no direction key held) and travels at
  horizontal speed 100 leaves \<open>applyMovementForces\<close> at speed 95, far above the cap of 10.
  The clamp sits inside the \<open>isMoving\<close> branch; the other branch only damps.
\<close>

theorem applyMovementForces_not_clamped_when_idle:
  "\<not> isMoving ((new_player vzero)
        \<lparr>body := (createSphereBody vzero 1)\<lparr>velocity := \<lparr>vx = 100, vy = 0, vz = 0\<rparr>\<rparr>\<rparr>) \<and>
   speedCap ((new_player vzero)
        \<lparr>body := (createSphereBody vzero 1)\<lparr>velocity := \<lparr>vx = 100, vy = 0, vz = 0\<rparr>\<rparr>\<rparr>) = 10 \<and>
   hspeed (body (applyMovementForces (1/60) ((new_player vzero)
        \<lparr>body := (createSphereBody vzero 1)\<lparr>velocity := \<lparr>vx = 100, vy = 0, vz = 0\<rparr>\<rparr>\<rparr>))) = 95"
proof -
  have "sqrt (9025::real) = 95" by (rule real_sqrt_unique) simp_all
  then show ?thesis
    by (simp add: applyMovementForces_def new_player_def speedCap_def hspeed_def vlength_def
        createSphereBody_def)
qed

text \<open>In exact arithmetic the rounded method is the unrounded one.\<close>

lemma applyMovementForces_fl_exact:
  "applyMovementForces_fl (\<lambda>x. x) dt p = applyMovementForces dt p"
  by (simp add: applyMovementForces_fl_def applyMovementForces_def vlength_fl_def vlength_def
      body_applyForce_fl_def body_applyForce_def vadd_def Let_def)

text \<open>
  Rounding with relative error at most \<open>u\<close>: the computed speed is at least
  \<open>(1 - u)\<^sup>3\<close> times the true one, and the rescaled velocity is at most \<open>(1 + u) * k\<close>
  times as long as the old one, \<open>k\<close> being the scale factor.
\<close>

lemma accurate_lower: "accurate u rnd t \<Longrightarrow> 0 \<le> t \<Longrightarrow> (1 - u) * t \<le> rnd t"
  by (simp add: accurate_def algebra_simps abs_le_iff)

lemma accurate_upper: "accurate u rnd t \<Longrightarrow> 0 \<le> t \<Longrightarrow> rnd t \<le> (1 + u) * t"
  by (simp add: accurate_def algebra_simps abs_le_iff)

lemma accurate_abs: "accurate u rnd t \<Longrightarrow> \<bar>rnd t\<bar> \<le> (1 + u) * \<bar>t\<bar>"
  by (simp add: accurate_def algebra_simps abs_le_iff) linarith

lemma accurate_zero: "accurate u rnd 0 \<Longrightarrow> rnd 0 = 0"
  by (simp add: accurate_def)

lemma computed_speed_lower:
  assumes u: "0 \<le> u" "u < 1"
    and a: "accurate u rnd (x * x)" and y: "accurate u rnd 0" and b: "accurate u rnd (z * z)"
    and c1: "accurate u rnd (rnd (x * x) + rnd 0)"
    and c: "accurate u rnd (rnd (rnd (x * x) + rnd 0) + rnd (z * z))"
    and s: "accurate u rnd (sqrt (rnd (rnd (rnd (x * x) + rnd 0) + rnd (z * z))))"
  shows "(1 - u) ^ 3 * sqrt (x * x + z * z)
           \<le> rnd (sqrt (rnd (rnd (rnd (x * x) + rnd 0) + rnd (z * z))))"
proof -
  define w where "w = 1 - u"
  have w: "0 < w" "w \<le> 1" using u by (simp_all add: w_def)
  define A where "A = rnd (x * x)"
  define B where "B = rnd (z * z)"
  define C1 where "C1 = rnd (A + rnd 0)"
  define C where "C = rnd (C1 + B)"
  have y0: "rnd 0 = 0" using y by (rule accurate_zero)
  have A: "w * (x * x) \<le> A" unfolding A_def w_def using a by (rule accurate_lower) simp
  have A0: "0 \<le> A" using A w by (meson mult_nonneg_nonneg less_imp_le order_trans zero_le_square)
  have B: "w * (z * z) \<le> B" unfolding B_def w_def using b by (rule accurate_lower) simp
  have B0: "0 \<le> B" using B w by (meson mult_nonneg_nonneg less_imp_le order_trans zero_le_square)
  have "w * A \<le> C1" unfolding C1_def w_def y0 using c1 A0
    by (intro accurate_lower) (simp_all add: A_def y0)
  moreover have "w * (w * (x * x)) \<le> w * A" using A w by simp
  ultimately have C1: "w * w * (x * x) \<le> C1" by (simp add: mult.assoc)
  have C10: "0 \<le> C1" using C1 w by (meson mult_nonneg_nonneg less_imp_le order_trans zero_le_square)
  have "w * (z * z) \<le> z * z" using w by (simp add: mult_left_le_one_le)
  then have "w * (w * (z * z)) \<le> w * (z * z)" using w by simp
  with B have B2: "w * w * (z * z) \<le> B" by (simp add: mult.assoc)
  have sum: "w * w * (x * x + z * z) \<le> C1 + B" using C1 B2 by (simp add: algebra_simps)
  have "w * (C1 + B) \<le> C" unfolding C_def w_def using c C10 B0
    by (intro accurate_lower) (simp_all add: C1_def A_def B_def)
  moreover have "w * (w * w * (x * x + z * z)) \<le> w * (C1 + B)" using sum w by simp
  ultimately have C: "w * w * w * (x * x + z * z) \<le> C" by (simp add: mult.assoc)
  have "w * w * w * w * (x * x + z * z) \<le> w * w * w * (x * x + z * z)"
  proof -
    have "0 \<le> w * w * w * (x * x + z * z)" using w by simp
    then have "w * (w * w * w * (x * x + z * z)) \<le> w * w * w * (x * x + z * z)"
      using w by (simp add: mult_left_le_one_le)
    then show ?thesis by (simp add: mult.assoc)
  qed
  with C have "(w * w) * (w * w) * (x * x + z * z) \<le> C" by (simp add: mult.assoc)
  then have "sqrt ((w * w) * (w * w) * (x * x + z * z)) \<le> sqrt C" by simp
  moreover have "sqrt ((w * w) * (w * w) * (x * x + z * z)) = w * w * sqrt (x * x + z * z)"
    using w by (simp add: real_sqrt_mult)
  ultimately have sq: "w * w * sqrt (x * x + z * z) \<le> sqrt C" by simp
  have C0: "0 \<le> C"
  proof -
    have "0 \<le> w * w * w * (x * x + z * z)" using w by simp
    with C show ?thesis by linarith
  qed
  have sC: "accurate u rnd (sqrt C)" using s by (simp add: C_def C1_def A_def B_def)
  have "w * sqrt C \<le> rnd (sqrt C)" unfolding w_def using sC C0
    by (intro accurate_lower) simp_all
  moreover have "w * (w * w * sqrt (x * x + z * z)) \<le> w * sqrt C" using sq w by simp
  ultimately have "w * w * w * sqrt (x * x + z * z) \<le> rnd (sqrt C)" by (simp add: mult.assoc)
  then show ?thesis
    by (simp add: w_def C_def C1_def A_def B_def power3_eq_cube)
qed


lemma rescaled_speed_upper:
  assumes "0 \<le> u" "0 \<le> k" "accurate u rnd (x * k)" "accurate u rnd (z * k)"
  shows "sqrt (rnd (x * k) * rnd (x * k) + rnd (z * k) * rnd (z * k))
           \<le> (1 + u) * k * sqrt (x * x + z * z)"
proof -
  define m where "m = (1 + u) * k"
  have m: "0 \<le> m" using assms(1,2) by (simp add: m_def)
  have ax: "\<bar>rnd (x * k)\<bar> \<le> m * \<bar>x\<bar>"
  proof -
    have "\<bar>x * k\<bar> = k * \<bar>x\<bar>" using assms(2) by (simp add: abs_mult)
    with accurate_abs [OF assms(3)] show ?thesis by (simp add: m_def mult.assoc)
  qed
  have az: "\<bar>rnd (z * k)\<bar> \<le> m * \<bar>z\<bar>"
  proof -
    have "\<bar>z * k\<bar> = k * \<bar>z\<bar>" using assms(2) by (simp add: abs_mult)
    with accurate_abs [OF assms(4)] show ?thesis by (simp add: m_def mult.assoc)
  qed
  have "\<bar>rnd (x * k)\<bar> * \<bar>rnd (x * k)\<bar> \<le> (m * \<bar>x\<bar>) * (m * \<bar>x\<bar>)"
    using ax by (intro mult_mono) simp_all
  then have sx: "rnd (x * k) * rnd (x * k) \<le> (m * m) * (x * x)"
    by (simp add: algebra_simps)
  have "\<bar>rnd (z * k)\<bar> * \<bar>rnd (z * k)\<bar> \<le> (m * \<bar>z\<bar>) * (m * \<bar>z\<bar>)"
    using az by (intro mult_mono) simp_all
  then have sz: "rnd (z * k) * rnd (z * k) \<le> (m * m) * (z * z)"
    by (simp add: algebra_simps)
  have "rnd (x * k) * rnd (x * k) + rnd (z * k) * rnd (z * k) \<le> (m * m) * (x * x + z * z)"
    using sx sz by (simp add: algebra_simps)
  then have "sqrt (rnd (x * k) * rnd (x * k) + rnd (z * k) * rnd (z * k))
               \<le> sqrt ((m * m) * (x * x + z * z))" by simp
  also have "\<dots> = m * sqrt (x * x + z * z)" using m by (simp add: real_sqrt_mult)
  finally show ?thesis by (simp add: m_def)
qed

text \<open>
  C1 (amended): with a non-negative speed cap (\<open>maxSpeed\<close>, or
  \<open>maxSpeed * speedBoostFactor\<close> as computed under a speed boost), for every initial
  velocity and every \<open>dt\<close>: if the player is moving, the horizontal speed after
  \<open>applyMovementForces\<close> does not exceed the cap by more than rounding allows, namely
  the factor \<open>(1 + u)\<^sup>2 / (1 - u)\<^sup>3\<close> when each of the operations that compute the
  speed and rescale the velocity has relative rounding error at most \<open>u\<close> (for doubles
  \<open>u = 2\<^sup>-\<^sup>5\<^sup>3\<close>, the factor is below \<open>1 + 6 * 10\<^sup>-\<^sup>1\<^sup>6\<close>; in exact arithmetic it
  is 1); if the player is not moving, both horizontal velocity components are multiplied
  by 0.95 and nothing is clamped; the vertical velocity is unchanged in both cases.
\<close>

theorem applyMovementForces_speed_limit:
  assumes cap: "0 \<le> speedCap_fl rnd p" and u: "0 \<le> u" "u < 1"
    and acc: "list_all (accurate u rnd) (clamp_operations rnd p)"
  shows "(isMoving p \<longrightarrow>
            hspeed (body (applyMovementForces_fl rnd dt p))
              \<le> speedCap_fl rnd p * ((1 + u)\<^sup>2 / (1 - u) ^ 3)) \<and>
         (\<not> isMoving p \<longrightarrow>
            vx (velocity (body (applyMovementForces_fl rnd dt p)))
              = rnd (vx (velocity (body p)) * rnd 0.95)
            \<and> vz (velocity (body (applyMovementForces_fl rnd dt p)))
              = rnd (vz (velocity (body p)) * rnd 0.95)) \<and>
         vy (velocity (body (applyMovementForces_fl rnd dt p))) = vy (velocity (body p))"
proof -
  define x where "x = vx (velocity (body p))"
  define z where "z = vz (velocity (body p))"
  define c where "c = speedCap_fl rnd p"
  define s where "s = rnd (sqrt (rnd (rnd (rnd (x * x) + rnd 0) + rnd (z * z))))"
  define k where "k = rnd (c / s)"
  define w where "w = 1 - u"
  define S where "S = sqrt (x * x + z * z)"
  have w: "0 < w" "w \<le> 1" using u by (simp_all add: w_def)
  have w3: "0 < w ^ 3" using w by simp
  have S0: "0 \<le> S" by (simp add: S_def)
  have a: "accurate u rnd (x * x)" "accurate u rnd 0" "accurate u rnd (z * z)"
    "accurate u rnd (rnd (x * x) + rnd 0)"
    "accurate u rnd (rnd (rnd (x * x) + rnd 0) + rnd (z * z))"
    "accurate u rnd (sqrt (rnd (rnd (rnd (x * x) + rnd 0) + rnd (z * z))))"
    using acc by (simp_all add: clamp_operations_def Let_def x_def z_def)
  have low: "w ^ 3 * S \<le> s"
    unfolding w_def S_def s_def using u a(1-6) by (rule computed_speed_lower)
  have Sle: "S \<le> s / w ^ 3" using low w3 by (simp add: field_simps)
  have one: "1 \<le> (1 + u)\<^sup>2" using u by (simp add: power2_eq_square algebra_simps)
  have moving: "hspeed (body (applyMovementForces_fl rnd dt p)) \<le> c * ((1 + u)\<^sup>2 / w ^ 3)"
    if m: "isMoving p"
  proof (cases "s > c")
    case True
    then have spos: "0 < s" using cap by (simp add: c_def)
    have a7: "accurate u rnd (c / s)" "accurate u rnd (x * k)" "accurate u rnd (z * k)"
      using acc True
      by (simp_all add: clamp_operations_def Let_def x_def z_def c_def s_def k_def)
    have q0: "0 \<le> c / s" using cap spos by (simp add: c_def)
    have k0: "0 \<le> k"
    proof -
      have "w * (c / s) \<le> k" unfolding k_def w_def using a7(1) q0 by (rule accurate_lower)
      moreover have "0 \<le> w * (c / s)" using w q0 by (intro mult_nonneg_nonneg) simp_all
      ultimately show ?thesis by linarith
    qed
    have kup: "k \<le> (1 + u) * (c / s)" unfolding k_def using a7(1) q0 by (rule accurate_upper)
    have h: "hspeed (body (applyMovementForces_fl rnd dt p))
               = sqrt (rnd (x * k) * rnd (x * k) + rnd (z * k) * rnd (z * k))"
      using m True
      by (simp add: applyMovementForces_fl_def Let_def hspeed_def vlength_def vlength_fl_def
          body_applyForce_fl_def speedCap_fl_def x_def z_def c_def s_def k_def)
    have "sqrt (rnd (x * k) * rnd (x * k) + rnd (z * k) * rnd (z * k)) \<le> (1 + u) * k * S"
      unfolding S_def using u(1) k0 a7(2,3) by (rule rescaled_speed_upper)
    also have "\<dots> \<le> (1 + u) * ((1 + u) * (c / s)) * S"
      using kup u S0 by (intro mult_right_mono mult_left_mono) simp_all
    also have "\<dots> = (1 + u)\<^sup>2 * c * (S / s)" by (simp add: power2_eq_square)
    also have "\<dots> \<le> (1 + u)\<^sup>2 * c * (1 / w ^ 3)"
    proof -
      have "S / s \<le> 1 / w ^ 3" using Sle spos w3 by (simp add: field_simps)
      moreover have "0 \<le> (1 + u)\<^sup>2 * c" using cap by (simp add: c_def)
      ultimately show ?thesis by (rule mult_left_mono)
    qed
    finally show ?thesis using h by (simp add: algebra_simps)
  next
    case False
    have h: "hspeed (body (applyMovementForces_fl rnd dt p)) = S"
      using m False
      by (simp add: applyMovementForces_fl_def Let_def hspeed_def vlength_def vlength_fl_def
          body_applyForce_fl_def speedCap_fl_def x_def z_def c_def s_def S_def)
    have "S \<le> s / w ^ 3" by (rule Sle)
    also have "\<dots> \<le> c / w ^ 3" using False w3 by (simp add: divide_right_mono)
    also have "\<dots> \<le> (1 + u)\<^sup>2 * (c / w ^ 3)"
    proof -
      have "0 \<le> c / w ^ 3" using cap w3 by (simp add: c_def)
      with one have "1 * (c / w ^ 3) \<le> (1 + u)\<^sup>2 * (c / w ^ 3)" by (rule mult_right_mono)
      then show ?thesis by simp
    qed
    finally show ?thesis using h by (simp add: algebra_simps)
  qed
  have still: "vx (velocity (body (applyMovementForces_fl rnd dt p)))
              = rnd (vx (velocity (body p)) * rnd 0.95)
            \<and> vz (velocity (body (applyMovementForces_fl rnd dt p)))
              = rnd (vz (velocity (body p)) * rnd 0.95)" if "\<not> isMoving p"
    using that by (simp add: applyMovementForces_fl_def)
  have vert: "vy (velocity (body (applyMovementForces_fl rnd dt p))) = vy (velocity (body p))"
    by (simp add: applyMovementForces_fl_def Let_def body_applyForce_fl_def)
  show ?thesis using moving still vert by (simp add: c_def w_def)
qed


text \<open>
  The amended C1 at a concrete player, moving at horizontal velocity (30, 40), with
  rounding to multiples of \<open>1/1024\<close> (relative error at most \<open>1/1000\<close> here). The scale
  factor \<open>10 / 50\<close> is rounded up to \<open>205/1024\<close>, the new velocity is
  \<open>(3075/512, 1025/128)\<close>, of length \<open>5125/512\<close>: above the cap of 10, within the bound.
\<close>

theorem applyMovementForces_speed_limit_witness:
  "0 \<le> speedCap_fl round_to_grid ((new_player vzero)\<lparr>isMoving := True, moveDirection := (1, 0),
        body := (createSphereBody vzero 1)\<lparr>velocity := \<lparr>vx = 30, vy = 7, vz = 40\<rparr>\<rparr>\<rparr>) \<and>
   list_all (accurate (1/1000) round_to_grid)
     (clamp_operations round_to_grid ((new_player vzero)\<lparr>isMoving := True,
        moveDirection := (1, 0),
        body := (createSphereBody vzero 1)\<lparr>velocity := \<lparr>vx = 30, vy = 7, vz = 40\<rparr>\<rparr>\<rparr>)) \<and>
   vx (velocity (body (applyMovementForces_fl round_to_grid (1/60) ((new_player vzero)\<lparr>isMoving := True,
        moveDirection := (1, 0),
        body := (createSphereBody vzero 1)\<lparr>velocity := \<lparr>vx = 30, vy = 7, vz = 40\<rparr>\<rparr>\<rparr>))))
     = 3075 / 512 \<and>
   vz (velocity (body (applyMovementForces_fl round_to_grid (1/60) ((new_player vzero)\<lparr>isMoving := True,
        moveDirection := (1, 0),
        body := (createSphereBody vzero 1)\<lparr>velocity := \<lparr>vx = 30, vy = 7, vz = 40\<rparr>\<rparr>\<rparr>))))
     = 1025 / 128 \<and>
   hspeed (body (applyMovementForces_fl round_to_grid (1/60) ((new_player vzero)\<lparr>isMoving := True,
        moveDirection := (1, 0),
        body := (createSphereBody vzero 1)\<lparr>velocity := \<lparr>vx = 30, vy = 7, vz = 40\<rparr>\<rparr>\<rparr>)))
     \<le> 10 * ((1 + 1/1000)\<^sup>2 / (1 - 1/1000) ^ 3)"
proof -
  let ?p = "(new_player vzero)\<lparr>isMoving := True, moveDirection := (1, 0),
        body := (createSphereBody vzero 1)\<lparr>velocity := \<lparr>vx = 30, vy = 7, vz = 40\<rparr>\<rparr>\<rparr>"
  have sq: "sqrt (2500::real) = 50" by (rule real_sqrt_unique) simp_all
  have cap: "speedCap_fl round_to_grid ?p = 10" by (simp add: speedCap_fl_def new_player_def)
  have acc: "list_all (accurate (1/1000) round_to_grid) (clamp_operations round_to_grid ?p)"
    by (simp add: clamp_operations_def Let_def cap round_to_grid_def accurate_def sq)
  have m: "isMoving ?p" by simp
  have v: "vx (velocity (body (applyMovementForces_fl round_to_grid (1/60) ?p))) = 3075 / 512"
    "vz (velocity (body (applyMovementForces_fl round_to_grid (1/60) ?p))) = 1025 / 128"
    by (simp_all add: applyMovementForces_fl_def Let_def vlength_fl_def body_applyForce_fl_def
        new_player_def round_to_grid_def sq)
  from applyMovementForces_speed_limit [of round_to_grid ?p "1/1000" "1/60"] cap acc m v
  show ?thesis by simp
qed

text \<open>
  \<open>jump\<close> lets a player without jump power jump when \<open>isOnJumpPad\<close> is set (the source
  speaks of "special launch pads"). Nothing the game does to a player sets that property.
\<close>

lemma jump_with_isOnJumpPad:
  "\<not> hasJumpPower ((new_player vzero)\<lparr>canJump := True, isOnJumpPad := True\<rparr>) \<and>
   jumpCooldown (jump ((new_player vzero)\<lparr>canJump := True, isOnJumpPad := True\<rparr>)) = 1/2 \<and>
   vy (velocity (body (jump ((new_player vzero)\<lparr>canJump := True, isOnJumpPad := True\<rparr>)))) = 12"
  by (simp add: jump_def new_player_def body_applyImpulse_def invMass_def vadd_def vscale_def
      vzero_def createSphereBody_def)

lemma isOnJumpPad_never_set:
  assumes "\<not> isOnJumpPad p"
  shows "\<not> isOnJumpPad (apply_event e p)"
proof (cases e)
  case (Update dt i)
  have a: "\<not> isOnJumpPad (processInput i p)" using assms
    by (simp add: processInput_def Let_def jump_def)
  have b: "\<not> isOnJumpPad q \<Longrightarrow> \<not> isOnJumpPad (applyMovementForces dt q)" for q
    by (simp add: applyMovementForces_def Let_def)
  have c: "\<not> isOnJumpPad q \<Longrightarrow> \<not> isOnJumpPad (checkBounds q)" for q
    by (simp add: checkBounds_def die_def respawn_def removeAllPowerups_def Let_def)
  show ?thesis using Update a b c by (simp add: update_def Let_def)
next
  case (ClockAdvance ms)
  then show ?thesis using assms
    by (simp add: advanceClock_def jumpPowerExpired_def speedBoostExpired_def Let_def
        split: option.splits)
qed (use assms in \<open>simp_all add: collide_def jump_def respawn_def removeAllPowerups_def
      giveJumpPower_def giveSpeedBoost_def setSpawnPoint_def setOnDeathCallback_def
      physicsUpdate_def\<close>)

lemma run_events_isOnJumpPad:
  "\<not> isOnJumpPad p \<Longrightarrow> \<not> isOnJumpPad (run_events es p)"
  by (induction es arbitrary: p) (simp_all add: isOnJumpPad_never_set)

text \<open>
  C2: in every state of a player (any run of events from a newly constructed player) in
  which \<open>hasJumpPower\<close> is false, \<open>jump()\<close> is a no-op: the whole state, and so the body's
  velocity and the jump cooldown, is unchanged, whatever \<open>canJump\<close> and \<open>jumpCooldown\<close>
  are.
\<close>

theorem jump_noop_without_power:
  assumes "\<not> hasJumpPower (run_events es (new_player pos))"
  shows "jump (run_events es (new_player pos)) = run_events es (new_player pos)"
proof -
  have "\<not> isOnJumpPad (new_player pos)" by (simp add: new_player_def)
  then have "\<not> isOnJumpPad (run_events es (new_player pos))" by (rule run_events_isOnJumpPad)
  with assms show ?thesis by (simp add: jump_def)
qed

text \<open>
  C2 at a player that has landed (contact with an upward normal), is grounded, has no
  cooldown running and has no jump power.
\<close>

theorem jump_noop_without_power_witness:
  "\<not> hasJumpPower (run_events [Collide 1] (new_player vzero)) \<and>
   canJump (run_events [Collide 1] (new_player vzero)) \<and>
   jumpCooldown (run_events [Collide 1] (new_player vzero)) \<le> 0 \<and>
   jump (run_events [Collide 1] (new_player vzero)) = run_events [Collide 1] (new_player vzero)"
proof -
  have a: "\<not> hasJumpPower (run_events [Collide 1] (new_player vzero))"
    and b: "canJump (run_events [Collide 1] (new_player vzero))"
    and c: "jumpCooldown (run_events [Collide 1] (new_player vzero)) \<le> 0"
    by (simp_all add: collide_def new_player_def)
  from jump_noop_without_power [OF a] a b c show ?thesis by simp
qed

text \<open>
  C3: when the mesh's vertical position (the one \<open>checkBounds\<close> reads) is below -10,
  \<open>checkBounds\<close> kills the player: the body is placed exactly at the current spawn point,
  which is kept; linear and angular velocity are exactly zero; both power-up flags and
  their timers are cleared; and a registered death callback is invoked once.
\<close>

theorem checkBounds_death_resets_player:
  assumes "vy (meshPosition p) < - 10"
  shows "position (body (checkBounds p)) = spawnPosition p \<and>
         spawnPosition (checkBounds p) = spawnPosition p \<and>
         velocity (body (checkBounds p)) = vzero \<and>
         angularVelocity (body (checkBounds p)) = vzero \<and>
         \<not> hasJumpPower (checkBounds p) \<and> \<not> hasSpeedBoost (checkBounds p) \<and>
         jumpPowerTimeout (checkBounds p) = None \<and> speedBoostTimeout (checkBounds p) = None \<and>
         deathCalls (checkBounds p) = (if onDeath p then deathCalls p + 1 else deathCalls p)"
  using assms
  by (simp add: checkBounds_def die_def respawn_def removeAllPowerups_def Let_def)

text \<open>
  C3 at a concrete player: spawn point (1, 3, 2), both power-ups active, a death callback
  registered, moving, and fallen to height -11.
\<close>

theorem checkBounds_death_resets_player_witness:
  "vy (meshPosition ((giveSpeedBoost 5 (giveJumpPower 10
        (setOnDeathCallback (new_player \<lparr>vx = 1, vy = 3, vz = 2\<rparr>))))
        \<lparr>meshPosition := \<lparr>vx = 4, vy = - 11, vz = 0\<rparr>\<rparr>)) < - 10 \<and>
   position (body (checkBounds ((giveSpeedBoost 5 (giveJumpPower 10
        (setOnDeathCallback (new_player \<lparr>vx = 1, vy = 3, vz = 2\<rparr>))))
        \<lparr>meshPosition := \<lparr>vx = 4, vy = - 11, vz = 0\<rparr>\<rparr>))) = \<lparr>vx = 1, vy = 3, vz = 2\<rparr> \<and>
   \<not> hasJumpPower (checkBounds ((giveSpeedBoost 5 (giveJumpPower 10
        (setOnDeathCallback (new_player \<lparr>vx = 1, vy = 3, vz = 2\<rparr>))))
        \<lparr>meshPosition := \<lparr>vx = 4, vy = - 11, vz = 0\<rparr>\<rparr>)) \<and>
   deathCalls (checkBounds ((giveSpeedBoost 5 (giveJumpPower 10
        (setOnDeathCallback (new_player \<lparr>vx = 1, vy = 3, vz = 2\<rparr>))))
        \<lparr>meshPosition := \<lparr>vx = 4, vy = - 11, vz = 0\<rparr>\<rparr>)) = 1"
proof -
  let ?p = "(giveSpeedBoost 5 (giveJumpPower 10
        (setOnDeathCallback (new_player \<lparr>vx = 1, vy = 3, vz = 2\<rparr>))))
        \<lparr>meshPosition := \<lparr>vx = 4, vy = - 11, vz = 0\<rparr>\<rparr>"
  have h: "vy (meshPosition ?p) < - 10" by simp
  have s: "spawnPosition ?p = \<lparr>vx = 1, vy = 3, vz = 2\<rparr>" "onDeath ?p" "deathCalls ?p = 0"
    by (simp_all add: giveSpeedBoost_def giveJumpPower_def setOnDeathCallback_def new_player_def)
  from checkBounds_death_resets_player [OF h] h s show ?thesis by simp
qed

text \<open>No event other than an upward contact makes a player able to jump.\<close>

lemma canJump_stays_false:
  assumes "\<not> upward_contact e" "\<not> canJump p"
  shows "\<not> canJump (apply_event e p)"
proof (cases e)
  case (Update dt i)
  have a: "\<not> canJump (processInput i p)" using assms(2)
    by (simp add: processInput_def Let_def jump_def)
  have b: "\<not> canJump q \<Longrightarrow> \<not> canJump (applyMovementForces dt q)" for q
    by (simp add: applyMovementForces_def Let_def)
  have c: "\<not> canJump q \<Longrightarrow> \<not> canJump (checkBounds q)" for q
    by (simp add: checkBounds_def die_def respawn_def removeAllPowerups_def Let_def)
  show ?thesis using Update a b c by (simp add: update_def Let_def)
next
  case (Collide ny)
  then show ?thesis using assms by (simp add: collide_def)
next
  case (ClockAdvance ms)
  then show ?thesis using assms
    by (simp add: advanceClock_def jumpPowerExpired_def speedBoostExpired_def Let_def
        split: option.splits)
qed (use assms in \<open>simp_all add: jump_def respawn_def removeAllPowerups_def
      giveJumpPower_def giveSpeedBoost_def setSpawnPoint_def setOnDeathCallback_def
      physicsUpdate_def\<close>)

lemma run_events_canJump:
  "list_all (\<lambda>e. \<not> upward_contact e) es \<Longrightarrow> \<not> canJump p \<Longrightarrow> \<not> canJump (run_events es p)"
  by (induction es arbitrary: p) (simp_all add: canJump_stays_false)

text \<open>
  C10: right after \<open>respawn()\<close>, \<open>canJump\<close> is false and \<open>jumpCooldown\<close> is 0.5; and after
  any further run of events that contains no contact with an upward normal (frames with
  any input and any \<open>dt\<close>, timer expiries, power-up pickups, physics steps, further jumps
  and respawns), \<open>canJump\<close> is still false and a \<open>jump()\<close> call leaves the whole player
  state, hence the body's velocity and the cooldown, unchanged.
\<close>

theorem no_jump_after_respawn:
  assumes "list_all (\<lambda>e. \<not> upward_contact e) es"
  shows "\<not> canJump (respawn p) \<and> jumpCooldown (respawn p) = 0.5 \<and>
         \<not> canJump (run_events es (respawn p)) \<and>
         jump (run_events es (respawn p)) = run_events es (respawn p)"
proof -
  have r: "\<not> canJump (respawn p)" by (simp add: respawn_def removeAllPowerups_def)
  have c: "jumpCooldown (respawn p) = 0.5" by (simp add: respawn_def removeAllPowerups_def)
  have q: "\<not> canJump (run_events es (respawn p))" using assms r by (rule run_events_canJump)
  then have "jump (run_events es (respawn p)) = run_events es (respawn p)"
    by (simp add: jump_def)
  with r c q show ?thesis by simp
qed

text \<open>
  C10 at a concrete run: a grounded player with jump power respawns, picks jump power up
  again, touches a wall (horizontal normal) and spends a frame with the jump key held.
\<close>

theorem no_jump_after_respawn_witness:
  "list_all (\<lambda>e. \<not> upward_contact e)
     [GiveJumpPower 10, Collide 0,
      Update (1/10) \<lparr>forward = True, backward = False, left = False, right = False, jumpKey = True\<rparr>] \<and>
   jump (run_events
     [GiveJumpPower 10, Collide 0,
      Update (1/10) \<lparr>forward = True, backward = False, left = False, right = False, jumpKey = True\<rparr>]
     (respawn (giveJumpPower 10 ((new_player vzero)\<lparr>canJump := True\<rparr>))))
   = run_events
     [GiveJumpPower 10, Collide 0,
      Update (1/10) \<lparr>forward = True, backward = False, left = False, right = False, jumpKey = True\<rparr>]
     (respawn (giveJumpPower 10 ((new_player vzero)\<lparr>canJump := True\<rparr>)))"
proof -
  have h: "list_all (\<lambda>e. \<not> upward_contact e)
     [GiveJumpPower 10, Collide 0,
      Update (1/10) \<lparr>forward = True, backward = False, left = False, right = False, jumpKey = True\<rparr>]"
    by simp
  from no_jump_after_respawn [OF h] h show ?thesis by blast
qed


section \<open>Checkpoints\<close>

text \<open>
  C4: picking up a checkpoint always leaves it activated and not collected. The first
  pickup of a checkpoint that is not yet activated moves the player's spawn point to one
  unit above the checkpoint's mesh, with exactly one \<open>setSpawnPoint\<close> call and one
  activation callback (if one is registered). A pickup of an activated checkpoint changes
  neither the checkpoint nor the player. Hence a second pickup right after the first
  changes nothing, sets no spawn point and invokes no activation callback.
\<close>

theorem checkpoint_pickup_idempotent:
  assumes "ctype c = CHECKPOINT"
  shows "activated (fst (collectItem m c p)) \<and> \<not> collected (fst (collectItem m c p)) \<and>
         (\<not> activated c \<longrightarrow>
            spawnPosition (fst (snd (collectItem m c p)))
              = \<lparr>vx = vx (c_meshPosition c), vy = vy (c_meshPosition c) + 1,
                 vz = vz (c_meshPosition c)\<rparr>
            \<and> length (filter is_spawn_call (snd (snd (collectItem m c p)))) = 1
            \<and> count_list (snd (snd (collectItem m c p))) CheckpointActivatedCallback
                = (if onCheckpointActivated m then 1 else 0)) \<and>
         (activated c \<longrightarrow>
            collectItem m c p
              = (c\<lparr>collected := False\<rparr>, p,
                 CollectionEffect
                   # (if onCollectible m then [CollectibleCallback CHECKPOINT] else []))) \<and>
         (let c1 = fst (collectItem m c p); p1 = fst (snd (collectItem m c p))
          in fst (collectItem m c1 p1) = c1 \<and> fst (snd (collectItem m c1 p1)) = p1
             \<and> filter is_spawn_call (snd (snd (collectItem m c1 p1))) = []
             \<and> CheckpointActivatedCallback \<notin> set (snd (snd (collectItem m c1 p1))))"
  using assms by (simp add: collectItem_def Let_def setSpawnPoint_def)

text \<open>C4 at a fresh checkpoint at (1, 2, 3) with all callbacks registered.\<close>

theorem checkpoint_pickup_idempotent_witness:
  "ctype (createCheckpoint \<lparr>vx = 1, vy = 2, vz = 3\<rparr>) = CHECKPOINT \<and>
   activated (fst (collectItem
       \<lparr>onCollectible = True, onCoinCollected = True, onCheckpointActivated = True\<rparr>
       (createCheckpoint \<lparr>vx = 1, vy = 2, vz = 3\<rparr>) (new_player vzero))) \<and>
   spawnPosition (fst (snd (collectItem
       \<lparr>onCollectible = True, onCoinCollected = True, onCheckpointActivated = True\<rparr>
       (createCheckpoint \<lparr>vx = 1, vy = 2, vz = 3\<rparr>) (new_player vzero))))
     = \<lparr>vx = 1, vy = 3, vz = 3\<rparr>"
  using checkpoint_pickup_idempotent
    [of "createCheckpoint \<lparr>vx = 1, vy = 2, vz = 3\<rparr>"
        "\<lparr>onCollectible = True, onCoinCollected = True, onCheckpointActivated = True\<rparr>"
        "new_player vzero"]
  by (simp add: createCheckpoint_def)


section \<open>Disappearing platform\<close>










section \<open>Moving platform\<close>








text \<open>
  The body is placed at \<open>start + progress * direction\<close> with the direction already
  flipped, so the step that reaches the far end puts it at \<open>start - distance\<close>.
\<close>

lemma turnaround_position:
  assumes "distance ob \<le> next_progress rnd d ob"
  shows "axis_coord (axis ob) (position (mp_body (updateMovingPlatform rnd d ob)))
           = rnd (axis_coord (axis ob) (startPos ob) + rnd (distance ob * - 1))"
  using assms
  by (cases "axis ob")
     (simp_all add: updateMovingPlatform_def Let_def axis_add_def axis_coord_def)






section \<open>Finish zone\<close>




section \<open>Vortex\<close>

text \<open>For a non-negative radius the test on squared distances is the test \<open>d < radius\<close>.\<close>

lemma vortex_in_range_iff:
  assumes "0 \<le> v_radius v"
  shows "(vx (v_position v) - vx (meshPosition pl)) * (vx (v_position v) - vx (meshPosition pl))
         + (vz (v_position v) - vz (meshPosition pl)) * (vz (v_position v) - vz (meshPosition pl))
           < v_radius v * v_radius v
         \<longleftrightarrow> vortex_distance v pl < v_radius v"
proof -
  have "sqrt (v_radius v * v_radius v) = v_radius v" using assms by simp
  then show ?thesis
    unfolding vortex_distance_def
    by (metis real_sqrt_less_iff)
qed

text \<open>
  A vortex built by \<open>createVortex\<close> never applies a force: inside the radius the call
  throws, outside it does nothing.
\<close>

lemma createVortex_never_applies_force:
  assumes "0 \<le> r"
  shows "applyForceToPlayer (createVortex pos r s) pl dt =
          (if vortex_distance (createVortex pos r s) pl < r then Inl TypeError else Inr pl)"
  using vortex_in_range_iff [of "createVortex pos r s" pl] assms
  by (simp add: applyForceToPlayer_def Let_def createVortex_def)

text \<open>
  C8 fails on the code: for a vortex built by \<open>createVortex\<close> (radius 3, strength 10, at
  the origin) and a player at horizontal distance 1, inside the radius,
  \<open>applyForceToPlayer\<close> throws a \<open>TypeError\<close> instead of applying the force of magnitude
  \<open>(1 - 1/3) * 10 * dt\<close> towards the centre.
\<close>

theorem vortex_applyForceToPlayer_throws:
  "vortex_distance (createVortex vzero 3 10) (new_player \<lparr>vx = 1, vy = 1/2, vz = 0\<rparr>) = 1 \<and>
   applyForceToPlayer (createVortex vzero 3 10) (new_player \<lparr>vx = 1, vy = 1/2, vz = 0\<rparr>) (1/60) = Inl TypeError"
  by (simp add: applyForceToPlayer_def createVortex_def new_player_def vortex_distance_def vzero_def Let_def)

text \<open>
  With a \<open>physics\<close> reference in place, and the player off the centre, the force added
  would be the one C8 describes.
\<close>

lemma vortex_force_with_physics:
  assumes "v_physics v" "0 < vortex_distance v pl" "vortex_distance v pl < v_radius v"
  shows "applyForceToPlayer v pl dt =
           Inr (pl\<lparr>body := (body pl)\<lparr>force := vadd (force (body pl))
              (vscale ((1 - vortex_distance v pl / v_radius v) * strength v * dt)
                 \<lparr>vx = (vx (v_position v) - vx (meshPosition pl)) / vortex_distance v pl, vy = 0,
                  vz = (vz (v_position v) - vz (meshPosition pl)) / vortex_distance v pl\<rparr>)\<rparr>\<rparr>)"
proof -
  have r: "0 \<le> v_radius v" using assms by linarith
  show ?thesis
    using assms vortex_in_range_iff [OF r, of pl]
    by (simp add: applyForceToPlayer_def Let_def physics_applyForce_def body_applyForce_def vscale_def vortex_distance_def)
qed

section \<open>Power-up timers\<close>

text \<open>A frame in which the player does not die leaves the power-ups and their timers alone.\<close>

lemma update_keeps_powerups:
  assumes "- 10 \<le> vy (meshPosition p)"
  shows "hasJumpPower (update dt i p) = hasJumpPower p \<and> hasSpeedBoost (update dt i p) = hasSpeedBoost p \<and>
         jumpPowerTimeout (update dt i p) = jumpPowerTimeout p \<and> speedBoostTimeout (update dt i p) = speedBoostTimeout p"
proof -
  have a: "hasJumpPower (processInput i p) = hasJumpPower p \<and> hasSpeedBoost (processInput i p) = hasSpeedBoost p \<and>
         jumpPowerTimeout (processInput i p) = jumpPowerTimeout p \<and> speedBoostTimeout (processInput i p) = speedBoostTimeout p
         \<and> meshPosition (processInput i p) = meshPosition p"
    by (simp add: processInput_def Let_def jump_def)
  have b: "hasJumpPower (applyMovementForces dt q) = hasJumpPower q \<and> hasSpeedBoost (applyMovementForces dt q) = hasSpeedBoost q \<and>
         jumpPowerTimeout (applyMovementForces dt q) = jumpPowerTimeout q \<and> speedBoostTimeout (applyMovementForces dt q) = speedBoostTimeout q
         \<and> meshPosition (applyMovementForces dt q) = meshPosition q" for q
    by (simp add: applyMovementForces_def Let_def)
  have c: "checkBounds q = q" if "- 10 \<le> vy (meshPosition q)" for q
    using that by (simp add: checkBounds_def)
  have "checkBounds (applyMovementForces dt (processInput i p)) = applyMovementForces dt (processInput i p)"
    using a b assms by (intro c) simp
  then show ?thesis using a b by (simp add: update_def Let_def)
qed

text \<open>
  C9, as stated, fails: with the frame loop paused (no \<open>update\<close> call at all), jump power
  given for 10 s has expired after 10000 ms of wall-clock time.
\<close>

theorem power_up_expires_while_paused:
  "hasJumpPower (giveJumpPower 10 (new_player vzero)) \<and>
   \<not> hasJumpPower (advanceClock 10000 (giveJumpPower 10 (new_player vzero)))"
  by (simp add: giveJumpPower_def advanceClock_def jumpPowerExpired_def new_player_def Let_def)

text \<open>
  C9 (amended): power-up expiry is driven by a deferred callback, not by frame time.
  \<open>Player.update(dt)\<close>, for any \<open>dt\<close> and input, changes neither \<open>hasJumpPower\<close> nor
  \<open>hasSpeedBoost\<close> nor their pending timers (unless the player dies in that frame). A
  pickup sets the flag and hands \<open>setTimeout\<close> a callback with the delay
  \<open>duration * 1000\<close>; that callback, whenever the browser runs it, clears its flag and
  its timer and leaves the other flag alone. So the flag reverts whether or not the frame
  loop is running.
\<close>

theorem power_up_expiry_by_timer_callback:
  shows "(- 10 \<le> vy (meshPosition p) \<longrightarrow>
            hasJumpPower (update dt i p) = hasJumpPower p \<and>
            hasSpeedBoost (update dt i p) = hasSpeedBoost p \<and>
            jumpPowerTimeout (update dt i p) = jumpPowerTimeout p \<and>
            speedBoostTimeout (update dt i p) = speedBoostTimeout p) \<and>
         hasJumpPower (giveJumpPower d q) \<and>
         jumpPowerTimeout (giveJumpPower d q) = Some (d * 1000) \<and>
         hasSpeedBoost (giveSpeedBoost d q) \<and>
         speedBoostTimeout (giveSpeedBoost d q) = Some (d * 1000) \<and>
         \<not> hasJumpPower (jumpPowerExpired q) \<and>
         jumpPowerTimeout (jumpPowerExpired q) = None \<and>
         hasSpeedBoost (jumpPowerExpired q) = hasSpeedBoost q \<and>
         \<not> hasSpeedBoost (speedBoostExpired q) \<and>
         speedBoostTimeout (speedBoostExpired q) = None \<and>
         hasJumpPower (speedBoostExpired q) = hasJumpPower q"
  using update_keeps_powerups [of p dt i]
  by (simp add: giveJumpPower_def giveSpeedBoost_def jumpPowerExpired_def speedBoostExpired_def)

text \<open>
  The amended C9 at a concrete player: a frame, however long, leaves fresh jump power and
  its timer in place; the timer callback clears the flag.
\<close>

theorem power_up_expiry_by_timer_callback_witness:
  "- 10 \<le> vy (meshPosition (giveJumpPower 10 (new_player vzero))) \<and>
   hasJumpPower (update 20 \<lparr>forward = False, backward = False, left = False, right = False,
        jumpKey = False\<rparr> (giveJumpPower 10 (new_player vzero))) \<and>
   jumpPowerTimeout (update 20 \<lparr>forward = False, backward = False, left = False, right = False,
        jumpKey = False\<rparr> (giveJumpPower 10 (new_player vzero))) = Some 10000 \<and>
   \<not> hasJumpPower (jumpPowerExpired (giveJumpPower 10 (new_player vzero)))"
proof -
  have h: "- 10 \<le> vy (meshPosition (giveJumpPower 10 (new_player vzero)))"
    by (simp add: giveJumpPower_def new_player_def vzero_def)
  have g: "hasJumpPower (giveJumpPower 10 (new_player vzero))"
    "jumpPowerTimeout (giveJumpPower 10 (new_player vzero)) = Some 10000"
    by (simp_all add: giveJumpPower_def)
  from power_up_expiry_by_timer_callback
         [of "giveJumpPower 10 (new_player vzero)" 20
             "\<lparr>forward = False, backward = False, left = False, right = False, jumpKey = False\<rparr>"
             10 "giveJumpPower 10 (new_player vzero)"]
       h g
  show ?thesis by simp
qed


end
